theory Spec2Isabelle
  imports Main "HOL-Library.Char_ord" "HOL-Library.List_Lexorder"
begin

section \<open>Values, exceptions and effects\<close>

text \<open>
  The orchestration code of \<^verbatim>\<open>bootstrap/factories.py\<close>,
  \<^verbatim>\<open>bootstrap/launch_experiment.py\<close>, \<^verbatim>\<open>launch_experiment.py\<close> and
  \<^verbatim>\<open>test.py\<close> only moves values around: it builds keyword dictionaries, calls
  deferred constructors and helper functions, tests for \<^verbatim>\<open>None\<close> and raises
  \<^verbatim>\<open>ValueError\<close>. A Python value is therefore \<^verbatim>\<open>None\<close>, a scalar, or an
  object; an object is known by the classes it is an instance of (the names on its method
  resolution order) and by its attribute dictionary.
\<close>

datatype pyval = PNone | PBool bool | PInt int | PStr string | PObj obj
  and obj = Obj (mro: "string list") (attrs: "(string \<times> pyval) list")

type_synonym kwargs = "(string \<times> pyval) list"

datatype exn =
    ValueError string
  | AttributeError string
  | TypeError string
  | FileNotFoundError string
  | RuntimeError string
  | Raised string

text \<open>
  The eight deferred constructors that \<^verbatim>\<open>launch_experiment\<close> receives, named by its
  parameters.
\<close>

datatype component =
  Dataset | Model | Optimizer | Scheduler | TrainingLoss | DataLoader | Trainer | Tester

text \<open>
  Every call that leaves the orchestration code is recorded, in the order in which it is
  made: the invocation of a deferred constructor with its call-time arguments, a call of the
  run entry point of a driver, and the calls of the helpers of \<^verbatim>\<open>utils\<close>,
  \<^verbatim>\<open>torch\<close>, \<^verbatim>\<open>wandb\<close> and \<^verbatim>\<open>os\<close>.
\<close>

datatype event =
    Invoke component "pyval list" kwargs
  | EntryPoint pyval string kwargs
  | SeedEverything int
  | DeviceCount
  | DataParallel pyval
  | ToCuda pyval
  | WandbInit string string
  | WandbWatch pyval string bool
  | ManualSeed int
  | LoadModelCkpt "string option" bool
  | PathExists string
  | ListDir string

type_synonym 'a M = "event list \<Rightarrow> (exn + 'a) \<times> event list"

definition ret :: "'a \<Rightarrow> 'a M" where
  "ret x = (\<lambda>tr. (Inr x, tr))"

definition raise :: "exn \<Rightarrow> 'a M" where
  "raise e = (\<lambda>tr. (Inl e, tr))"

definition bindM :: "'a M \<Rightarrow> ('a \<Rightarrow> 'b M) \<Rightarrow> 'b M" where
  "bindM m f = (\<lambda>tr. case m tr of
                     (Inl e, tr') \<Rightarrow> (Inl e, tr')
                   | (Inr x, tr') \<Rightarrow> f x tr')"

definition emit :: "event \<Rightarrow> (exn + 'a) \<Rightarrow> 'a M" where
  "emit ev r = (\<lambda>tr. (r, tr @ [ev]))"

subsection \<open>Keyword arguments\<close>

text \<open>
  A call \<^verbatim>\<open>f(a=1, **d1, **d2)\<close> raises \<^verbatim>\<open>TypeError\<close> when a keyword occurs twice,
  and passes the concatenation otherwise.
\<close>

definition call_kwargs :: "kwargs list \<Rightarrow> exn + kwargs" where
  "call_kwargs dicts =
     (let kw = concat dicts
      in if distinct (map fst kw) then Inr kw
         else Inl (TypeError ''got multiple values for keyword argument''))"

subsection \<open>Deferred constructors\<close>

text \<open>
  A \<^verbatim>\<open>Partial[T]\<close> is a \<^verbatim>\<open>functools.partial\<close>: a target with keyword arguments
  already bound. Calling it calls the target with the bound keywords updated by the
  call-time ones (\<^verbatim>\<open>{**self.keywords, **keywords}\<close>); the target is the constructor of a
  class, so what it returns is an object, never \<^verbatim>\<open>None\<close>, unless it raises.
  \<^verbatim>\<open>just(partial)\<close> gives the bound keywords as a configuration object, without calling
  the target.
\<close>

record partial =
  p_kwargs :: kwargs
  p_func :: "pyval list \<Rightarrow> kwargs \<Rightarrow> exn + obj"

definition override :: "kwargs \<Rightarrow> kwargs \<Rightarrow> kwargs" where
  "override bound kw = filter (\<lambda>(k, v). k \<notin> set (map fst kw)) bound @ kw"

definition effective :: "partial \<Rightarrow> kwargs \<Rightarrow> kwargs" where
  "effective p kw = override (p_kwargs p) kw"

definition invoke :: "component \<Rightarrow> partial \<Rightarrow> pyval list \<Rightarrow> kwargs \<Rightarrow> pyval M" where
  "invoke c p args kw =
     emit (Invoke c args kw) (map_sum id PObj (p_func p args (effective p kw)))"

definition getattr_conf :: "partial \<Rightarrow> string \<Rightarrow> pyval M" where
  "getattr_conf p name =
     (case map_of (p_kwargs p) name of
        None \<Rightarrow> raise (AttributeError name)
      | Some v \<Rightarrow> ret v)"

subsection \<open>The collaborators outside the orchestration code\<close>

text \<open>
  The project flags of \<^verbatim>\<open>conf.project\<close>, the run name that Hydra derives from its
  output directory, the number of CUDA devices, the helpers \<^verbatim>\<open>to_cuda_\<close>,
  \<^verbatim>\<open>load_model_ckpt\<close> of \<^verbatim>\<open>utils\<close>, the class \<^verbatim>\<open>TransparentDataParallel\<close>,
  the method \<^verbatim>\<open>parameters()\<close> of a model, the file system as \<^verbatim>\<open>os.path.exists\<close>
  and \<^verbatim>\<open>os.listdir\<close> see it, Hydra's \<^verbatim>\<open>to_absolute_path\<close>, and the run entry
  points \<^verbatim>\<open>train\<close> and \<^verbatim>\<open>test\<close> of the drivers are parameters of the model.
\<close>

record world =
  REPRODUCIBLE :: bool
  USE_WANDB :: bool
  PROJECT_NAME :: string
  run_name :: string
  device_count :: nat
  moved_to_device :: "pyval \<Rightarrow> pyval"
  data_parallel :: "pyval \<Rightarrow> obj"
  parameters :: "pyval \<Rightarrow> pyval"
  path_exists :: "string \<Rightarrow> bool"
  listdir :: "string \<Rightarrow> exn + string list"
  to_absolute_path :: "string \<Rightarrow> string"
  load_model_ckpt :: "string option \<Rightarrow> bool \<Rightarrow> exn + string option"
  call_method :: "pyval \<Rightarrow> string \<Rightarrow> kwargs \<Rightarrow> exn + pyval"

definition lift :: "exn + 'a \<Rightarrow> 'a M" where
  "lift r = (\<lambda>tr. (r, tr))"

definition cuda_device_count :: "world \<Rightarrow> nat M" where
  "cuda_device_count w = emit DeviceCount (Inr (device_count w))"

definition TransparentDataParallel :: "world \<Rightarrow> pyval \<Rightarrow> pyval M" where
  "TransparentDataParallel w m = emit (DataParallel m) (Inr (PObj (data_parallel w m)))"

definition to_cuda :: "world \<Rightarrow> pyval \<Rightarrow> pyval M" where
  "to_cuda w x = emit (ToCuda x) (Inr (moved_to_device w x))"

definition seed_everything :: "int \<Rightarrow> unit M" where
  "seed_everything s = emit (SeedEverything s) (Inr ())"

text \<open>
  \<^verbatim>\<open>g = torch.Generator(); g.manual_seed(seed)\<close>. \<^verbatim>\<open>manual_seed\<close> takes a seed
  from \<^verbatim>\<open>-0x8000_0000_0000_0000\<close> to \<^verbatim>\<open>0xffff_ffff_ffff_ffff\<close> and raises
  \<^verbatim>\<open>RuntimeError\<close> for any other; a negative seed is remapped to
  \<^verbatim>\<open>0xffff_ffff_ffff_ffff + seed\<close>.
\<close>

definition seed_in_range :: "int \<Rightarrow> bool" where
  "seed_in_range s = (- 9223372036854775808 \<le> s \<and> s \<le> 18446744073709551615)"

definition remapped_seed :: "int \<Rightarrow> int" where
  "remapped_seed s = (if s < 0 then 18446744073709551615 + s else s)"

definition seeded_generator :: "int \<Rightarrow> pyval M" where
  "seeded_generator s =
     emit (ManualSeed s)
       (if seed_in_range s
        then Inr (PObj (Obj [''Generator''] [(''initial_seed'', PInt (remapped_seed s))]))
        else Inl (RuntimeError ''manual_seed expects a seed within the 64-bit range''))"

definition os_path_exists :: "world \<Rightarrow> string \<Rightarrow> bool M" where
  "os_path_exists w p = emit (PathExists p) (Inr (path_exists w p))"

definition os_listdir :: "world \<Rightarrow> string \<Rightarrow> string list M" where
  "os_listdir w d = emit (ListDir d) (listdir w d)"

definition entry_point :: "world \<Rightarrow> pyval \<Rightarrow> string \<Rightarrow> kwargs \<Rightarrow> pyval M" where
  "entry_point w driver name kw = emit (EntryPoint driver name kw) (call_method w driver name kw)"

subsection \<open>Python built-ins used by the code\<close>

definition isinstance :: "pyval \<Rightarrow> string \<Rightarrow> bool" where
  "isinstance v cls = (case v of PObj ob \<Rightarrow> cls \<in> set (mro ob) | _ \<Rightarrow> False)"

fun dict_set :: "string \<Rightarrow> pyval \<Rightarrow> kwargs \<Rightarrow> kwargs" where
  "dict_set k v [] = [(k, v)]"
| "dict_set k v ((k', v') # al) =
     (if k' = k then (k, v) # al else (k', v') # dict_set k v al)"

definition setattr :: "pyval \<Rightarrow> string \<Rightarrow> pyval \<Rightarrow> pyval" where
  "setattr v name x =
     (case v of PObj ob \<Rightarrow> PObj (Obj (mro ob) (dict_set name x (attrs ob))) | _ \<Rightarrow> v)"

definition getattr :: "pyval \<Rightarrow> string \<Rightarrow> pyval option" where
  "getattr v name = (case v of PObj ob \<Rightarrow> map_of (attrs ob) name | _ \<Rightarrow> None)"

text \<open>\<^verbatim>\<open>x ** 2\<close> on the values of the model: an integer or a bool is squared, anything
  else has no power operator.\<close>

definition py_square :: "pyval \<Rightarrow> pyval M" where
  "py_square v =
     (case v of
        PInt n \<Rightarrow> ret (PInt (n ^ 2))
      | PBool b \<Rightarrow> ret (PInt (if b then 1 else 0))
      | _ \<Rightarrow> raise (TypeError ''unsupported operand type(s) for ** or pow()''))"

definition endswith :: "string \<Rightarrow> string \<Rightarrow> bool" where
  "endswith s suf = (length suf \<le> length s \<and> drop (length s - length suf) s = suf)"

definition startswith :: "string \<Rightarrow> string \<Rightarrow> bool" where
  "startswith s pre = (take (length pre) s = pre)"

text \<open>\<^verbatim>\<open>posixpath.join\<close>: an absolute component discards what is before it, and a
  separator is inserted unless the path so far is empty or ends with one.\<close>

definition join_step :: "string \<Rightarrow> string \<Rightarrow> string" where
  "join_step path b =
     (if startswith b ''/'' then b
      else if path = [] \<or> endswith path ''/'' then path @ b
      else path @ ''/'' @ b)"

definition os_path_join :: "string \<Rightarrow> string list \<Rightarrow> string" where
  "os_path_join a p = foldl join_step a p"

definition opt_str :: "string option \<Rightarrow> pyval" where
  "opt_str s = (case s of None \<Rightarrow> PNone | Some x \<Rightarrow> PStr x)"

section \<open>The factories of bootstrap/factories.py\<close>


definition make_datasets :: "bool \<Rightarrow> int \<Rightarrow> partial \<Rightarrow> (pyval \<times> pyval \<times> pyval) M" where
  "make_datasets training_mode seed dataset_partial =
     (if training_mode then
        bindM (invoke Dataset dataset_partial []
                 [(''split'', PStr ''train''), (''seed'', PInt seed)]) (\<lambda>train_dataset.
        bindM (invoke Dataset dataset_partial []
                 [(''split'', PStr ''val''), (''seed'', PInt seed)]) (\<lambda>val_dataset.
        ret (train_dataset, val_dataset, PNone)))
      else
        bindM (invoke Dataset dataset_partial []
                 [(''split'', PStr ''test''), (''augment'', PBool False), (''seed'', PInt seed)])
          (\<lambda>test_dataset.
        ret (PNone, PNone, test_dataset)))"


definition make_dataloaders ::
  "world \<Rightarrow> partial \<Rightarrow> pyval \<Rightarrow> pyval \<Rightarrow> pyval \<Rightarrow> bool \<Rightarrow> int \<Rightarrow> (pyval \<times> pyval \<times> pyval) M" where
  "make_dataloaders w data_loader_partial train_dataset val_dataset test_dataset
       training_mode seed =
     bindM (if REPRODUCIBLE w then seeded_generator seed else ret PNone) (\<lambda>generator.
     if training_mode then
       if train_dataset = PNone \<or> val_dataset = PNone then
         raise (ValueError ''train_dataset and val_dataset must be defined in training mode!'')
       else
         bindM (invoke DataLoader data_loader_partial [train_dataset]
                  [(''generator'', generator)]) (\<lambda>train_loader_inst.
         bindM (invoke DataLoader data_loader_partial [val_dataset]
                  [(''generator'', generator), (''shuffle'', PBool False),
                   (''drop_last'', PBool False)]) (\<lambda>val_loader_inst.
         ret (train_loader_inst, val_loader_inst, PNone)))
     else
       if test_dataset = PNone then
         raise (ValueError ''test_dataset must be defined in testing mode!'')
       else
         bindM (invoke DataLoader data_loader_partial [test_dataset]
                  [(''generator'', generator), (''shuffle'', PBool False),
                   (''drop_last'', PBool False)]) (\<lambda>test_loader_inst.
         ret (PNone, PNone, test_loader_inst)))"

definition make_model :: "partial \<Rightarrow> partial \<Rightarrow> pyval M" where
  "make_model model_partial dataset =
     bindM (getattr_conf dataset ''img_dim'') (\<lambda>img_dim.
     bindM (py_square img_dim) (\<lambda>encoder_input_dim.
     invoke Model model_partial [] [(''encoder_input_dim'', encoder_input_dim)]))"

definition parallelize_model :: "world \<Rightarrow> pyval \<Rightarrow> pyval M" where
  "parallelize_model w model =
     bindM (cuda_device_count w) (\<lambda>printed.
     bindM (cuda_device_count w) (\<lambda>n.
     if n > 1 then
       bindM (cuda_device_count w) (\<lambda>printed'.
       TransparentDataParallel w model)
     else ret model))"

definition make_optimizer :: "world \<Rightarrow> partial \<Rightarrow> pyval \<Rightarrow> pyval M" where
  "make_optimizer w optimizer_partial model =
     invoke Optimizer optimizer_partial [parameters w model] []"

definition make_scheduler :: "partial \<Rightarrow> pyval \<Rightarrow> int \<Rightarrow> pyval M" where
  "make_scheduler scheduler_partial optimizer epochs =
     bindM (invoke Scheduler scheduler_partial [optimizer] []) (\<lambda>scheduler.
     if isinstance scheduler ''CosineAnnealingLR''
     then ret (setattr scheduler ''T_max'' (PInt epochs))
     else ret scheduler)"

definition make_training_loss :: "bool \<Rightarrow> partial \<Rightarrow> pyval M" where
  "make_training_loss training_mode training_loss_partial =
     (if training_mode then invoke TrainingLoss training_loss_partial [] []
      else ret PNone)"

section \<open>The run descriptor\<close>

text \<open>
  Modelled from the spec: the class \<^verbatim>\<open>RunConfig\<close> of \<^verbatim>\<open>conf.experiment\<close> is not
  among the sources; the launchers read the fields below from it, and the specification's
  data model lists exactly these. \<^verbatim>\<open>asdict(run)\<close> is the dictionary of all of them.
\<close>

record run_conf =
  training_mode :: bool
  seed :: int
  epochs :: int
  val_every :: int
  viz_every :: int
  viz_train_every :: int
  viz_num_samples :: int
  load_from :: "string option"

definition asdict :: "run_conf \<Rightarrow> kwargs" where
  "asdict r =
     [(''training_mode'', PBool (training_mode r)),
      (''seed'', PInt (seed r)),
      (''epochs'', PInt (epochs r)),
      (''val_every'', PInt (val_every r)),
      (''viz_every'', PInt (viz_every r)),
      (''viz_train_every'', PInt (viz_train_every r)),
      (''viz_num_samples'', PInt (viz_num_samples r)),
      (''load_from'', opt_str (load_from r))]"

text \<open>The configuration that Hydra instantiates and \<^verbatim>\<open>zen\<close> unpacks into the
  parameters of \<^verbatim>\<open>launch_experiment\<close>.\<close>

record config =
  cfg_run :: run_conf
  cfg_data_loader :: partial
  cfg_optimizer :: partial
  cfg_scheduler :: partial
  cfg_trainer :: partial
  cfg_tester :: partial
  cfg_dataset :: partial
  cfg_model :: partial
  cfg_training_loss :: partial

section \<open>bootstrap/launch_experiment.py\<close>

definition init_wandb :: "world \<Rightarrow> string \<Rightarrow> pyval \<Rightarrow> unit M" where
  "init_wandb w name model =
     (if USE_WANDB w then
        bindM (emit (WandbInit (PROJECT_NAME w) name) (Inr ())) (\<lambda>u.
        emit (WandbWatch model ''gradients'' False) (Inr ()))
      else ret ())"

definition bootstrap_run_driver ::
  "world \<Rightarrow> run_conf \<Rightarrow> partial \<Rightarrow> partial \<Rightarrow> pyval \<Rightarrow> pyval \<Rightarrow> pyval \<Rightarrow> pyval \<Rightarrow> pyval
     \<Rightarrow> pyval \<Rightarrow> pyval \<Rightarrow> pyval \<Rightarrow> unit M" where
  "bootstrap_run_driver w run trainer tester model_inst opt_inst scheduler_inst
       training_loss_inst train_loader_inst val_loader_inst test_loader_inst model_ckpt_path =
     (let common_args =
            [(''run_name'', PStr (run_name w)),
             (''model'', model_inst),
             (''model_ckpt_path'', model_ckpt_path),
             (''training_loss'', training_loss_inst)]
      in
      if training_mode run then
        if training_loss_inst = PNone then
          raise (ValueError ''training_loss must be defined in training mode!'')
        else if val_loader_inst = PNone \<or> train_loader_inst = PNone then
          raise (ValueError ''val_loader and train_loader must be defined in training mode!'')
        else
          bindM (lift (call_kwargs
                   [[(''train_loader'', train_loader_inst),
                     (''val_loader'', val_loader_inst),
                     (''opt'', opt_inst),
                     (''scheduler'', scheduler_inst)],
                    common_args,
                    asdict run])) (\<lambda>kw.
          bindM (invoke Trainer trainer [] kw) (\<lambda>driver.
          bindM (entry_point w driver ''train''
                   [(''epochs'', PInt (epochs run)),
                    (''val_every'', PInt (val_every run)),
                    (''visualize_every'', PInt (viz_every run)),
                    (''visualize_train_every'', PInt (viz_train_every run)),
                    (''visualize_n_samples'', PInt (viz_num_samples run))]) (\<lambda>r.
          ret ())))
      else
        if test_loader_inst = PNone then
          raise (ValueError ''test_loader must be defined in testing mode!'')
        else
          bindM (lift (call_kwargs
                   [[(''data_loader'', test_loader_inst)], common_args])) (\<lambda>kw.
          bindM (invoke Tester tester [] kw) (\<lambda>driver.
          bindM (lift (call_kwargs
                   [[(''visualize_every'', PInt (viz_every run))], asdict run])) (\<lambda>kw'.
          bindM (entry_point w driver ''test'' kw') (\<lambda>r.
          ret ())))))"

definition bootstrap_launch_experiment ::
  "world \<Rightarrow> run_conf \<Rightarrow> partial \<Rightarrow> partial \<Rightarrow> partial \<Rightarrow> partial \<Rightarrow> partial \<Rightarrow> partial
     \<Rightarrow> partial \<Rightarrow> partial \<Rightarrow> unit M" where
  "bootstrap_launch_experiment w run data_loader optimizer scheduler trainer tester dataset
       model training_loss =
     bindM (make_model model dataset) (\<lambda>model_inst.
     bindM (make_datasets (training_mode run) (seed run) dataset)
       (\<lambda>(train_dataset, val_dataset, test_dataset).
     bindM (make_optimizer w optimizer model_inst) (\<lambda>opt_inst.
     bindM (make_scheduler scheduler opt_inst (epochs run)) (\<lambda>scheduler_inst.
     bindM (parallelize_model w model_inst) (\<lambda>wrapped.
     bindM (to_cuda w wrapped) (\<lambda>model_inst.
     bindM (make_training_loss (training_mode run) training_loss) (\<lambda>loss.
     bindM (to_cuda w loss) (\<lambda>training_loss_inst.
     bindM (make_dataloaders w data_loader train_dataset val_dataset test_dataset
              (training_mode run) (seed run))
       (\<lambda>(train_loader_inst, val_loader_inst, test_loader_inst).
     bindM (init_wandb w (run_name w) model_inst) (\<lambda>u.
     bindM (emit (LoadModelCkpt (load_from run) (training_mode run))
              (load_model_ckpt w (load_from run) (training_mode run))) (\<lambda>model_ckpt_path.
     bootstrap_run_driver w run trainer tester model_inst opt_inst scheduler_inst
       training_loss_inst train_loader_inst val_loader_inst test_loader_inst
       (opt_str model_ckpt_path))))))))))))"

section \<open>test.py\<close>

definition set_test_mode :: "config \<Rightarrow> config" where
  "set_test_mode cfg = cfg\<lparr>cfg_run := (cfg_run cfg)\<lparr>training_mode := False\<rparr>\<rparr>"

text \<open>
  \<^verbatim>\<open>zen(launch_experiment, pre_call=[...]).hydra_main(...)\<close> runs the two pre-call
  functions on the configuration, in the order of the list, and then calls
  \<^verbatim>\<open>launch_experiment\<close> with the fields of the configuration. The first pre-call seeds
  when \<^verbatim>\<open>REPRODUCIBLE\<close> is set and evaluates to an unused function otherwise.
\<close>

definition test_main :: "world \<Rightarrow> config \<Rightarrow> unit M" where
  "test_main w cfg =
     bindM (if REPRODUCIBLE w then seed_everything (seed (cfg_run cfg)) else ret ()) (\<lambda>u.
     let cfg' = set_test_mode cfg in
     bootstrap_launch_experiment w (cfg_run cfg') (cfg_data_loader cfg') (cfg_optimizer cfg')
       (cfg_scheduler cfg') (cfg_trainer cfg') (cfg_tester cfg') (cfg_dataset cfg')
       (cfg_model cfg') (cfg_training_loss cfg'))"

section \<open>launch_experiment.py\<close>

text \<open>
  The launcher at the top of the repository does inline what the bootstrap launcher
  delegates to the factories. Its body is cut here at the section markers of the source:
  the instantiation of the partials, the multi-GPU wrapping, the loss and the CUDA transfer,
  Weights and Biases, the data loaders, the checkpoint, and the run. Printing is left out.
\<close>

definition le_instantiate ::
  "world \<Rightarrow> run_conf \<Rightarrow> partial \<Rightarrow> partial \<Rightarrow> partial \<Rightarrow> partial
     \<Rightarrow> (pyval \<times> pyval \<times> pyval \<times> pyval \<times> pyval \<times> pyval) M" where
  "le_instantiate w run optimizer scheduler dataset model =
     bindM (getattr_conf dataset ''img_dim'') (\<lambda>img_dim.
     bindM (py_square img_dim) (\<lambda>encoder_input_dim.
     bindM (invoke Model model [] [(''encoder_input_dim'', encoder_input_dim)]) (\<lambda>model_inst.
     bindM (if training_mode run then
              bindM (invoke Dataset dataset []
                       [(''split'', PStr ''train''), (''seed'', PInt (seed run))]) (\<lambda>train_dataset.
              bindM (invoke Dataset dataset []
                       [(''split'', PStr ''val''), (''seed'', PInt (seed run))]) (\<lambda>val_dataset.
              ret (train_dataset, val_dataset, PNone)))
            else
              bindM (invoke Dataset dataset []
                       [(''split'', PStr ''test''), (''augment'', PBool False),
                        (''seed'', PInt (seed run))]) (\<lambda>test_dataset.
              ret (PNone, PNone, test_dataset)))
       (\<lambda>(train_dataset, val_dataset, test_dataset).
     bindM (invoke Optimizer optimizer [parameters w model_inst] []) (\<lambda>opt_inst.
     bindM (invoke Scheduler scheduler [opt_inst] []) (\<lambda>scheduler_inst.
     ret (model_inst, train_dataset, val_dataset, test_dataset, opt_inst,
          if isinstance scheduler_inst ''CosineAnnealingLR''
          then setattr scheduler_inst ''T_max'' (PInt (epochs run))
          else scheduler_inst)))))))"

definition le_multi_gpu :: "world \<Rightarrow> pyval \<Rightarrow> pyval M" where
  "le_multi_gpu w model_inst =
     bindM (cuda_device_count w) (\<lambda>printed.
     bindM (cuda_device_count w) (\<lambda>n.
     if n > 1 then
       bindM (cuda_device_count w) (\<lambda>printed'.
       TransparentDataParallel w model_inst)
     else ret model_inst))"

definition le_loss_cuda :: "world \<Rightarrow> run_conf \<Rightarrow> partial \<Rightarrow> pyval \<Rightarrow> (pyval \<times> pyval) M" where
  "le_loss_cuda w run training_loss model_inst =
     bindM (if training_mode run then invoke TrainingLoss training_loss [] [] else ret PNone)
       (\<lambda>training_loss_inst.
     bindM (to_cuda w model_inst) (\<lambda>model_inst'.
     bindM (to_cuda w training_loss_inst) (\<lambda>training_loss_inst'.
     ret (model_inst', training_loss_inst'))))"

definition le_wandb :: "world \<Rightarrow> pyval \<Rightarrow> unit M" where
  "le_wandb w model_inst =
     (if USE_WANDB w then
        bindM (emit (WandbInit (PROJECT_NAME w) (run_name w)) (Inr ())) (\<lambda>u.
        emit (WandbWatch model_inst ''all'' True) (Inr ()))
      else ret ())"

definition le_loaders ::
  "world \<Rightarrow> run_conf \<Rightarrow> partial \<Rightarrow> pyval \<Rightarrow> pyval \<Rightarrow> pyval \<Rightarrow> (pyval \<times> pyval \<times> pyval) M" where
  "le_loaders w run data_loader train_dataset val_dataset test_dataset =
     bindM (if REPRODUCIBLE w then seeded_generator (seed run) else ret PNone) (\<lambda>g.
     if training_mode run then
       if train_dataset = PNone \<or> val_dataset = PNone then
         raise (ValueError ''train_dataset and val_dataset must be defined in training mode!'')
       else
         bindM (invoke DataLoader data_loader [train_dataset] [(''generator'', g)])
           (\<lambda>train_loader_inst.
         bindM (invoke DataLoader data_loader [val_dataset]
                  [(''generator'', g), (''shuffle'', PBool False), (''drop_last'', PBool False)])
           (\<lambda>val_loader_inst.
         ret (train_loader_inst, val_loader_inst, PNone)))
     else
       if test_dataset = PNone then
         raise (ValueError ''test_dataset must be defined in testing mode!'')
       else
         bindM (invoke DataLoader data_loader [test_dataset]
                  [(''generator'', g), (''shuffle'', PBool False), (''drop_last'', PBool False)])
           (\<lambda>test_loader_inst.
         ret (PNone, PNone, test_loader_inst)))"

text \<open>
  Lines 153 to 176: the resolution of \<^verbatim>\<open>run.load_from\<close> into the path of a checkpoint.
  \<^verbatim>\<open>sorted\<close> orders strings by code point, which is the lexicographic order of their
  UTF-8 bytes.
\<close>

definition eligible :: "bool \<Rightarrow> string \<Rightarrow> bool" where
  "eligible training f =
     (endswith f ''.ckpt'' \<and> (if \<not> training then \<not> startswith f ''last'' else True))"

definition resolve_checkpoint :: "world \<Rightarrow> run_conf \<Rightarrow> string option M" where
  "resolve_checkpoint w run =
     (case load_from run of
        None \<Rightarrow> ret None
      | Some lf \<Rightarrow>
          if endswith lf ''.ckpt'' then
            let model_ckpt_path = to_absolute_path w lf in
            bindM (os_path_exists w model_ckpt_path) (\<lambda>ex.
            if \<not> ex then raise (ValueError (''File '' @ model_ckpt_path @ '' does not exist!''))
            else ret (Some model_ckpt_path))
          else
            bindM (os_listdir w (to_absolute_path w (''runs/'' @ lf @ ''/''))) (\<lambda>files.
            let run_models = sort (filter (eligible (training_mode run)) files) in
            if length run_models < 1 then
              raise (ValueError (''No model found in runs/'' @ lf @ ''/''))
            else
              ret (Some (to_absolute_path w (os_path_join ''runs'' [lf, last run_models])))))"

definition le_run_driver ::
  "world \<Rightarrow> run_conf \<Rightarrow> partial \<Rightarrow> partial \<Rightarrow> pyval \<Rightarrow> pyval \<Rightarrow> pyval \<Rightarrow> pyval \<Rightarrow> pyval
     \<Rightarrow> pyval \<Rightarrow> pyval \<Rightarrow> pyval \<Rightarrow> unit M" where
  "le_run_driver w run trainer tester model_inst opt_inst scheduler_inst
       training_loss_inst train_loader_inst val_loader_inst test_loader_inst model_ckpt_path =
     (if training_mode run then
        if training_loss_inst = PNone then
          raise (ValueError ''training_loss must be defined in training mode!'')
        else if val_loader_inst = PNone \<or> train_loader_inst = PNone then
          raise (ValueError ''val_loader and train_loader must be defined in training mode!'')
        else
          bindM (lift (call_kwargs
                   [[(''run_name'', PStr (run_name w)),
                     (''model'', model_inst),
                     (''opt'', opt_inst),
                     (''scheduler'', scheduler_inst),
                     (''train_loader'', train_loader_inst),
                     (''val_loader'', val_loader_inst),
                     (''training_loss'', training_loss_inst)],
                    asdict run])) (\<lambda>kw.
          bindM (invoke Trainer trainer [] kw) (\<lambda>driver.
          bindM (entry_point w driver ''train''
                   [(''epochs'', PInt (epochs run)),
                    (''val_every'', PInt (val_every run)),
                    (''visualize_every'', PInt (viz_every run)),
                    (''visualize_train_every'', PInt (viz_train_every run)),
                    (''visualize_n_samples'', PInt (viz_num_samples run)),
                    (''model_ckpt_path'', model_ckpt_path)]) (\<lambda>r.
          ret ())))
      else
        if test_loader_inst = PNone then
          raise (ValueError ''test_loader must be defined in testing mode!'')
        else
          bindM (invoke Tester tester []
                   [(''run_name'', PStr (run_name w)),
                    (''model'', model_inst),
                    (''data_loader'', test_loader_inst),
                    (''model_ckpt_path'', model_ckpt_path),
                    (''training_loss'', training_loss_inst)]) (\<lambda>driver.
          bindM (lift (call_kwargs
                   [[(''visualize_every'', PInt (viz_every run))], asdict run])) (\<lambda>kw'.
          bindM (entry_point w driver ''test'' kw') (\<lambda>r.
          ret ()))))"

definition launch_experiment ::
  "world \<Rightarrow> run_conf \<Rightarrow> partial \<Rightarrow> partial \<Rightarrow> partial \<Rightarrow> partial \<Rightarrow> partial \<Rightarrow> partial
     \<Rightarrow> partial \<Rightarrow> partial \<Rightarrow> unit M" where
  "launch_experiment w run data_loader optimizer scheduler trainer tester dataset
       model training_loss =
     bindM (le_instantiate w run optimizer scheduler dataset model)
       (\<lambda>(model_inst, train_dataset, val_dataset, test_dataset, opt_inst, scheduler_inst).
     bindM (le_multi_gpu w model_inst) (\<lambda>model_inst.
     bindM (le_loss_cuda w run training_loss model_inst)
       (\<lambda>(model_inst, training_loss_inst).
     bindM (le_wandb w model_inst) (\<lambda>u.
     bindM (le_loaders w run data_loader train_dataset val_dataset test_dataset)
       (\<lambda>(train_loader_inst, val_loader_inst, test_loader_inst).
     bindM (resolve_checkpoint w run) (\<lambda>model_ckpt_path.
     le_run_driver w run trainer tester model_inst opt_inst scheduler_inst
       training_loss_inst train_loader_inst val_loader_inst test_loader_inst
       (opt_str model_ckpt_path)))))))"

section \<open>The stages of a launch\<close>

text \<open>
  The stages that the specification names, read off the recorded calls: the stage of an
  event is the component of the specification's overview that makes the call. The loss has
  no stage of its own in that overview and gets one here. The CUDA transfer and the
  experiment tracker belong to no stage.
\<close>

datatype stage =
    Seeder | DatasetAssembler | ModelAssembler | DevicePlacement | OptimizationAssembler
  | LossConstruction | LoaderAssembler | CheckpointResolver | RunDriverAssembler
  | DriverInvocation

fun stage_of :: "event \<Rightarrow> stage option" where
  "stage_of (Invoke Dataset a k) = Some DatasetAssembler"
| "stage_of (Invoke Model a k) = Some ModelAssembler"
| "stage_of (Invoke Optimizer a k) = Some OptimizationAssembler"
| "stage_of (Invoke Scheduler a k) = Some OptimizationAssembler"
| "stage_of (Invoke TrainingLoss a k) = Some LossConstruction"
| "stage_of (Invoke DataLoader a k) = Some LoaderAssembler"
| "stage_of (Invoke Trainer a k) = Some RunDriverAssembler"
| "stage_of (Invoke Tester a k) = Some RunDriverAssembler"
| "stage_of (EntryPoint d n k) = Some DriverInvocation"
| "stage_of (SeedEverything s) = Some Seeder"
| "stage_of DeviceCount = Some DevicePlacement"
| "stage_of (DataParallel m) = Some DevicePlacement"
| "stage_of (ToCuda x) = None"
| "stage_of (WandbInit p n) = None"
| "stage_of (WandbWatch m l g) = None"
| "stage_of (ManualSeed s) = Some LoaderAssembler"
| "stage_of (LoadModelCkpt l t) = Some CheckpointResolver"
| "stage_of (PathExists p) = Some CheckpointResolver"
| "stage_of (ListDir d) = Some CheckpointResolver"

definition stages :: "event list \<Rightarrow> stage list" where
  "stages tr = remdups_adj (List.map_filter stage_of tr)"


section \<open>Example inputs\<close>

text \<open>
  A deferred constructor whose target builds an object of the given class with the keywords
  it receives as attributes; one whose target raises; and a machine with one device, no
  tracker, reproducibility on, a working directory \<^verbatim>\<open>/work\<close> with one checkpoint file
  and one run directory, on which the examples below are evaluated.
\<close>

definition ex_ctor :: "string \<Rightarrow> kwargs \<Rightarrow> partial" where
  "ex_ctor cls bound = \<lparr>p_kwargs = bound, p_func = (\<lambda>args kw. Inr (Obj [cls] kw))\<rparr>"

definition ex_failing :: "kwargs \<Rightarrow> partial" where
  "ex_failing bound = \<lparr>p_kwargs = bound, p_func = (\<lambda>args kw. Inl (Raised ''constructor''))\<rparr>"

definition ex_abspath :: "string \<Rightarrow> string" where
  "ex_abspath p =
     (let q = (if startswith p ''/'' then p else ''/work/'' @ p)
      in if 1 < length q \<and> endswith q ''/'' then butlast q else q)"

definition ex_world :: world where
  "ex_world =
     \<lparr>REPRODUCIBLE = True, USE_WANDB = False, PROJECT_NAME = ''project'', run_name = ''run0'',
      device_count = 1,
      moved_to_device = (\<lambda>x. x),
      data_parallel = (\<lambda>m. Obj [''TransparentDataParallel''] [(''module'', m)]),
      parameters = (\<lambda>m. PObj (Obj [''generator''] [(''of'', m)])),
      path_exists = (\<lambda>p. p = ''/work/best.ckpt''),
      listdir = (\<lambda>d. if d = ''/work/runs/exp1''
                     then Inr [''a.ckpt'', ''last.ckpt'', ''z.ckpt'', ''log.txt'']
                     else Inl (FileNotFoundError d)),
      to_absolute_path = ex_abspath,
      load_model_ckpt = (\<lambda>lf tm. Inr (map_option ex_abspath lf)),
      call_method = (\<lambda>d n kw. Inr PNone)\<rparr>"

definition ex_run :: run_conf where
  "ex_run =
     \<lparr>training_mode = True, seed = 42, epochs = 10, val_every = 1, viz_every = 10,
      viz_train_every = 0, viz_num_samples = 5, load_from = None\<rparr>"

definition ex_config :: config where
  "ex_config =
     \<lparr>cfg_run = ex_run,
      cfg_data_loader = ex_ctor ''DataLoader'' [(''batch_size'', PInt 32), (''shuffle'', PBool True)],
      cfg_optimizer = ex_ctor ''Adam'' [(''lr'', PInt 1)],
      cfg_scheduler = ex_ctor ''CosineAnnealingLR'' [(''T_max'', PInt 1), (''eta_min'', PInt 0)],
      cfg_trainer = ex_ctor ''BaseTrainer'' [],
      cfg_tester = ex_ctor ''BaseTester'' [],
      cfg_dataset = ex_ctor ''ImageDataset'' [(''img_dim'', PInt 32)],
      cfg_model = ex_ctor ''MLP'' [],
      cfg_training_loss = ex_ctor ''TrainingLoss'' []\<rparr>"

text \<open>A launcher applied to the example machine and the example components, from an
  empty record.\<close>

definition ex_launch :: "(world \<Rightarrow> run_conf \<Rightarrow> partial \<Rightarrow> partial \<Rightarrow> partial \<Rightarrow> partial \<Rightarrow> partial \<Rightarrow> partial
     \<Rightarrow> partial \<Rightarrow> partial \<Rightarrow> unit M) \<Rightarrow> run_conf \<Rightarrow> (exn + unit) \<times> event list" where
  "ex_launch f r = f ex_world r (cfg_data_loader ex_config) (cfg_optimizer ex_config)
       (cfg_scheduler ex_config) (cfg_trainer ex_config) (cfg_tester ex_config)
       (cfg_dataset ex_config) (cfg_model ex_config) (cfg_training_loss ex_config) []"

section \<open>Properties\<close>

subsection \<open>The effect monad and the deferred constructors\<close>

lemma bindM_ret [simp]: "bindM (ret x) f = f x"
  by (simp add: bindM_def ret_def)

lemma bindM_raise [simp]: "bindM (raise e) f = raise e"
  by (simp add: bindM_def raise_def)

lemma bindM_emit_Inr [simp]: "bindM (emit ev (Inr x)) f tr = f x (tr @ [ev])"
  by (simp add: bindM_def emit_def)

lemma bindM_Inr:
  "bindM m f tr = (Inr y, tr'') \<longleftrightarrow>
     (\<exists>x tr'. m tr = (Inr x, tr') \<and> f x tr' = (Inr y, tr''))"
  by (auto simp: bindM_def split: prod.splits sum.splits)

lemma emit_Inr: "emit ev r tr = (Inr x, tr') \<longleftrightarrow> r = Inr x \<and> tr' = tr @ [ev]"
  by (auto simp: emit_def)

lemma lift_Inr: "lift r tr = (Inr x, tr') \<longleftrightarrow> r = Inr x \<and> tr' = tr"
  by (auto simp: lift_def)

lemma invoke_Inr:
  "invoke c p args kw tr = (Inr v, tr') \<longleftrightarrow>
     (\<exists>ob. p_func p args (effective p kw) = Inr ob \<and> v = PObj ob
           \<and> tr' = tr @ [Invoke c args kw])"
  by (cases "p_func p args (effective p kw)") (auto simp: invoke_def emit_def)


lemma map_of_filter_keep:
  "k \<notin> fst ` set kw \<Longrightarrow>
     map_of (filter (\<lambda>(k, v). k \<notin> fst ` set kw) bound) k = map_of bound k"
  by (induction bound) (auto simp: rev_image_eqI)

lemma map_of_filter_drop:
  "k \<in> fst ` set kw \<Longrightarrow>
     map_of (filter (\<lambda>(k, v). k \<notin> fst ` set kw) bound) k = None"
  by (induction bound) (auto simp: rev_image_eqI)

text \<open>A call-time keyword wins over a bound one; a keyword that the call does not give
  keeps its bound value.\<close>

lemma map_of_override:
  "map_of (override bound kw) k =
     (case map_of kw k of Some v \<Rightarrow> Some v | None \<Rightarrow> map_of bound k)"
proof (cases "map_of kw k")
  case None
  then have "k \<notin> fst ` set kw" by (simp add: map_of_eq_None_iff)
  then show ?thesis
    using None by (simp add: override_def map_add_def map_of_filter_keep split: option.splits)
next
  case (Some v)
  then have "k \<in> fst ` set kw" by (metis map_of_eq_None_iff option.distinct(1))
  then show ?thesis
    using Some by (simp add: override_def map_add_def map_of_filter_drop)
qed

lemma map_of_dict_set: "map_of (dict_set k v al) = (map_of al)(k \<mapsto> v)"
  by (induction al) (auto simp: fun_eq_iff)

subsection \<open>Dataset assembler\<close>



subsection \<open>Model assembler\<close>

text \<open>
  C3. \<^verbatim>\<open>make_model\<close> reads the image dimension from the bound configuration of the
  dataset constructor and does not invoke that constructor: the one call it makes is the
  invocation of the model constructor. The \<^verbatim>\<open>encoder_input_dim\<close> keyword of that
  call, and the value the model class receives under that name, is the square of the image
  dimension, for every positive integer dimension.
\<close>

theorem make_model_dim:
  assumes "map_of (p_kwargs dataset) ''img_dim'' = Some (PInt d)" and "0 < d"
  shows "make_model model_partial dataset tr =
           (map_sum id PObj
              (p_func model_partial []
                 (effective model_partial [(''encoder_input_dim'', PInt (d * d))])),
            tr @ [Invoke Model [] [(''encoder_input_dim'', PInt (d * d))]])
         \<and> map_of (effective model_partial [(''encoder_input_dim'', PInt (d * d))])
               ''encoder_input_dim''
             = Some (PInt (d * d))"
  using assms
  by (simp add: make_model_def getattr_conf_def py_square_def invoke_def emit_def
      map_of_override effective_def power2_eq_square)

theorem make_model_dim_witness:
  "map_of (p_kwargs (ex_ctor ''ImageDataset'' [(''img_dim'', PInt 32)])) ''img_dim''
     = Some (PInt 32)
   \<and> (0::int) < 32
   \<and> make_model (ex_ctor ''MLP'' []) (ex_ctor ''ImageDataset'' [(''img_dim'', PInt 32)]) []
     = (Inr (PObj (Obj [''MLP''] [(''encoder_input_dim'', PInt 1024)])),
        [Invoke Model [] [(''encoder_input_dim'', PInt 1024)]])"
  using make_model_dim [of "ex_ctor ''ImageDataset'' [(''img_dim'', PInt 32)]" 32
                           "ex_ctor ''MLP'' []" "[]"]
  by (simp add: ex_ctor_def effective_def override_def)

subsection \<open>Scheduler patch\<close>

text \<open>
  C7. \<^verbatim>\<open>make_scheduler\<close> invokes the scheduler constructor with the live optimizer as
  its one positional argument. When the scheduler it gets is an instance of
  \<^verbatim>\<open>CosineAnnealingLR\<close>, the attribute \<^verbatim>\<open>T_max\<close> of the returned scheduler is
  \<^verbatim>\<open>epochs\<close> and every other attribute, and the class, is as the constructor left it;
  when it is not, the returned scheduler is the constructed one, untouched.
\<close>

theorem make_scheduler_patch:
  assumes "p_func scheduler_partial [optimizer] (effective scheduler_partial []) = Inr ob"
  shows "\<exists>s. make_scheduler scheduler_partial optimizer ep tr
               = (Inr s, tr @ [Invoke Scheduler [optimizer] []])
           \<and> (if isinstance (PObj ob) ''CosineAnnealingLR''
              then getattr s ''T_max'' = Some (PInt ep)
                   \<and> (\<forall>n. n \<noteq> ''T_max'' \<longrightarrow> getattr s n = getattr (PObj ob) n)
                   \<and> (\<forall>c. isinstance s c = isinstance (PObj ob) c)
              else s = PObj ob)"
  using assms
  by (auto simp: make_scheduler_def invoke_def emit_def bindM_def ret_def isinstance_def
      setattr_def getattr_def map_of_dict_set)

theorem make_scheduler_patch_witness:
  "make_scheduler (ex_ctor ''CosineAnnealingLR'' [(''T_max'', PInt 1), (''eta_min'', PInt 0)])
       (PStr ''opt'') 10 []
     = (Inr (PObj (Obj [''CosineAnnealingLR''] [(''T_max'', PInt 10), (''eta_min'', PInt 0)])),
        [Invoke Scheduler [PStr ''opt''] []])
   \<and> make_scheduler (ex_ctor ''StepLR'' [(''T_max'', PInt 1), (''step_size'', PInt 3)])
       (PStr ''opt'') 10 []
     = (Inr (PObj (Obj [''StepLR''] [(''T_max'', PInt 1), (''step_size'', PInt 3)])),
        [Invoke Scheduler [PStr ''opt''] []])"
  using make_scheduler_patch
          [of "ex_ctor ''CosineAnnealingLR'' [(''T_max'', PInt 1), (''eta_min'', PInt 0)]"
              "PStr ''opt''" "Obj [''CosineAnnealingLR''] [(''T_max'', PInt 1), (''eta_min'', PInt 0)]"
              10 "[]"]
        make_scheduler_patch
          [of "ex_ctor ''StepLR'' [(''T_max'', PInt 1), (''step_size'', PInt 3)]"
              "PStr ''opt''" "Obj [''StepLR''] [(''T_max'', PInt 1), (''step_size'', PInt 3)]"
              10 "[]"]
  by (simp add: make_scheduler_def invoke_def emit_def bindM_def ret_def ex_ctor_def
      effective_def override_def isinstance_def setattr_def)

subsection \<open>Loader assembler\<close>








subsection \<open>Loader precondition\<close>

text \<open>
  C9, as amended. When training mode is requested and the train or the val dataset is
  \<^verbatim>\<open>None\<close>, or testing mode is requested and the test dataset is \<^verbatim>\<open>None\<close>,
  \<^verbatim>\<open>make_dataloaders\<close> raises and has invoked no loader constructor: the only call it
  may have made is the seeding of the generator. What it raises is \<^verbatim>\<open>ValueError\<close> (the
  \<^verbatim>\<open>PreconditionError\<close> of the specification), unless \<^verbatim>\<open>REPRODUCIBLE\<close> is set and
  the seed is outside the range that \<^verbatim>\<open>manual_seed\<close> takes: the generator is seeded
  before the datasets are looked at, and then the seeding raises \<^verbatim>\<open>RuntimeError\<close>.
\<close>

theorem make_dataloaders_precondition:
  assumes "(tm \<and> (t = PNone \<or> v = PNone)) \<or> (\<not> tm \<and> te = PNone)"
  shows "make_dataloaders w dp t v te tm sd tr =
           (Inl (if REPRODUCIBLE w \<and> \<not> seed_in_range sd
                 then RuntimeError ''manual_seed expects a seed within the 64-bit range''
                 else ValueError (if tm
                   then ''train_dataset and val_dataset must be defined in training mode!''
                   else ''test_dataset must be defined in testing mode!'')),
            tr @ (if REPRODUCIBLE w then [ManualSeed sd] else []))"
  using assms
  by (auto simp: make_dataloaders_def seeded_generator_def raise_def bindM_def emit_def ret_def)

theorem make_dataloaders_precondition_witness:
  "((True \<and> (PNone = PNone \<or> PStr ''val'' = PNone)) \<or> (\<not> True \<and> PNone = PNone))
   \<and> make_dataloaders ex_world (ex_ctor ''DataLoader'' []) PNone (PStr ''val'') PNone True 42 []
     = (Inl (ValueError ''train_dataset and val_dataset must be defined in training mode!''),
        [ManualSeed 42])
   \<and> make_dataloaders (ex_world\<lparr>REPRODUCIBLE := False\<rparr>) (ex_ctor ''DataLoader'' [])
        PNone PNone PNone False 18446744073709551616 []
     = (Inl (ValueError ''test_dataset must be defined in testing mode!''), [])"
  using make_dataloaders_precondition
          [of True PNone "PStr ''val''" PNone ex_world "ex_ctor ''DataLoader'' []" 42 "[]"]
        make_dataloaders_precondition
          [of False PNone PNone PNone "ex_world\<lparr>REPRODUCIBLE := False\<rparr>"
              "ex_ctor ''DataLoader'' []" 18446744073709551616 "[]"]
  by (simp add: ex_world_def seed_in_range_def)

text \<open>
  C9 as stated fails with \<^verbatim>\<open>REPRODUCIBLE\<close> set and the seed \<^verbatim>\<open>2 ** 64\<close>: the
  datasets are missing, and what is raised is the \<^verbatim>\<open>RuntimeError\<close> of the seeding.
\<close>

theorem make_dataloaders_precondition_counterexample:
  "REPRODUCIBLE ex_world
   \<and> make_dataloaders ex_world (ex_ctor ''DataLoader'' []) PNone PNone PNone True
        18446744073709551616 []
     = (Inl (RuntimeError ''manual_seed expects a seed within the 64-bit range''),
        [ManualSeed 18446744073709551616])"
  by (simp add: make_dataloaders_def seeded_generator_def seed_in_range_def bindM_def emit_def
      ex_world_def)

subsection \<open>Checkpoint resolver\<close>

lemma sort_Nil_iff: "sort xs = [] \<longleftrightarrow> xs = []"
  by (metis length_sort length_0_conv)

lemma sorted_le_last: "sorted ys \<Longrightarrow> y \<in> set ys \<Longrightarrow> y \<le> last ys"
  by (induction ys) auto

lemma last_sort_max:
  fixes xs :: "string list"
  assumes "xs \<noteq> []"
  shows "last (sort xs) \<in> set xs \<and> (\<forall>x\<in>set xs. x \<le> last (sort xs))"
proof -
  have ne: "sort xs \<noteq> []" using assms by (simp add: sort_Nil_iff)
  then have "last (sort xs) \<in> set (sort xs)" by (rule last_in_set)
  moreover have "\<forall>x\<in>set (sort xs). x \<le> last (sort xs)"
    using sorted_le_last [of "sort xs"] by simp
  ultimately show ?thesis by simp
qed

lemma last_sort_example:
  "last (sort [''a.ckpt'', ''z.ckpt'']) = ''z.ckpt''"
  by code_simp

lemma eligible_example:
  "filter (eligible False) [''a.ckpt'', ''last.ckpt'', ''z.ckpt''] = [''a.ckpt'', ''z.ckpt'']"
  by (simp add: eligible_def endswith_def startswith_def)

lemma resolve_checkpoint_listing:
  assumes "load_from run = Some lf" and "\<not> endswith lf ''.ckpt''"
      and "listdir w (to_absolute_path w (''runs/'' @ lf @ ''/'')) = Inr files"
  shows "resolve_checkpoint w run tr =
           (if filter (eligible (training_mode run)) files = []
            then Inl (ValueError (''No model found in runs/'' @ lf @ ''/''))
            else Inr (Some (to_absolute_path w
                   (os_path_join ''runs''
                      [lf, last (sort (filter (eligible (training_mode run)) files))]))),
            tr @ [ListDir (to_absolute_path w (''runs/'' @ lf @ ''/''))])"
  using assms
  by (simp add: resolve_checkpoint_def os_listdir_def emit_def bindM_def raise_def ret_def
      Let_def sort_Nil_iff)

text \<open>
  C4. For a \<^verbatim>\<open>load_from\<close> that is given and does not end with \<^verbatim>\<open>.ckpt\<close>, the
  resolution lists the directory of that run, keeps the names that end with \<^verbatim>\<open>.ckpt\<close>
  and, outside training mode, do not start with \<^verbatim>\<open>last\<close> (in training mode these are
  kept), and returns the path, under \<^verbatim>\<open>runs/<load_from>/\<close>, of the name that is last
  in ascending order: an eligible name that every eligible name is below or equal to. With no
  eligible name it raises \<^verbatim>\<open>ValueError\<close> (the \<^verbatim>\<open>NotFoundError\<close> of the
  specification). A directory holding \<^verbatim>\<open>a.ckpt\<close>, \<^verbatim>\<open>last.ckpt\<close> and
  \<^verbatim>\<open>z.ckpt\<close> resolves to \<^verbatim>\<open>z.ckpt\<close> in testing mode.
\<close>

theorem resolve_checkpoint_run_id:
  assumes "load_from run = Some lf" and "\<not> endswith lf ''.ckpt''"
      and "listdir w (to_absolute_path w (''runs/'' @ lf @ ''/'')) = Inr files"
  shows "let el = filter (\<lambda>f. endswith f ''.ckpt''
                              \<and> (training_mode run \<or> \<not> startswith f ''last'')) files;
             tr' = tr @ [ListDir (to_absolute_path w (''runs/'' @ lf @ ''/''))]
         in (el = [] \<longrightarrow>
               resolve_checkpoint w run tr =
                 (Inl (ValueError (''No model found in runs/'' @ lf @ ''/'')), tr'))
          \<and> (el \<noteq> [] \<longrightarrow>
               (\<exists>n\<in>set el. (\<forall>f\<in>set el. f \<le> n) \<and> n = last (sort el)
                  \<and> resolve_checkpoint w run tr =
                      (Inr (Some (to_absolute_path w (os_path_join ''runs'' [lf, n]))), tr')))
          \<and> (files = [''a.ckpt'', ''last.ckpt'', ''z.ckpt''] \<and> \<not> training_mode run \<longrightarrow>
               resolve_checkpoint w run tr =
                 (Inr (Some (to_absolute_path w (os_path_join ''runs'' [lf, ''z.ckpt'']))), tr'))"
proof -
  define el where "el = filter (\<lambda>f. endswith f ''.ckpt''
                              \<and> (training_mode run \<or> \<not> startswith f ''last'')) files"
  have el: "filter (eligible (training_mode run)) files = el"
    unfolding el_def eligible_def by (rule filter_cong) auto
  note r = resolve_checkpoint_listing [OF assms, of tr, unfolded el]
  have 1: "el = [] \<longrightarrow> resolve_checkpoint w run tr =
       (Inl (ValueError (''No model found in runs/'' @ lf @ ''/'')),
        tr @ [ListDir (to_absolute_path w (''runs/'' @ lf @ ''/''))])"
    using r by simp
  have 2: "el \<noteq> [] \<longrightarrow>
               (\<exists>n\<in>set el. (\<forall>f\<in>set el. f \<le> n) \<and> n = last (sort el)
                  \<and> resolve_checkpoint w run tr =
                      (Inr (Some (to_absolute_path w (os_path_join ''runs'' [lf, n]))),
                       tr @ [ListDir (to_absolute_path w (''runs/'' @ lf @ ''/''))]))"
    using r last_sort_max [of el] by auto
  have 3: "files = [''a.ckpt'', ''last.ckpt'', ''z.ckpt''] \<and> \<not> training_mode run \<longrightarrow>
               resolve_checkpoint w run tr =
                 (Inr (Some (to_absolute_path w (os_path_join ''runs'' [lf, ''z.ckpt'']))),
                  tr @ [ListDir (to_absolute_path w (''runs/'' @ lf @ ''/''))])"
  proof
    assume a: "files = [''a.ckpt'', ''last.ckpt'', ''z.ckpt''] \<and> \<not> training_mode run"
    then have "el = [''a.ckpt'', ''z.ckpt'']"
      using el eligible_example by simp
    then show "resolve_checkpoint w run tr =
                 (Inr (Some (to_absolute_path w (os_path_join ''runs'' [lf, ''z.ckpt'']))),
                  tr @ [ListDir (to_absolute_path w (''runs/'' @ lf @ ''/''))])"
      using r last_sort_example by simp
  qed
  show ?thesis
    using 1 2 3 unfolding Let_def el_def by blast
qed

theorem resolve_checkpoint_run_id_witness:
  "resolve_checkpoint ex_world (ex_run\<lparr>training_mode := False, load_from := Some ''exp1''\<rparr>) []
     = (Inr (Some ''/work/runs/exp1/z.ckpt''), [ListDir ''/work/runs/exp1''])"
  using resolve_checkpoint_run_id
          [of "ex_run\<lparr>training_mode := False, load_from := Some ''exp1''\<rparr>" "''exp1''" ex_world
              "[''a.ckpt'', ''last.ckpt'', ''z.ckpt'', ''log.txt'']" "[]"]
  by (simp add: ex_world_def ex_run_def ex_abspath_def endswith_def startswith_def
      os_path_join_def join_step_def last_sort_example)

text \<open>
  C5, as amended. For a \<^verbatim>\<open>load_from\<close> that ends with \<^verbatim>\<open>.ckpt\<close>, the resolution
  returns \<^verbatim>\<open>to_absolute_path(load_from)\<close> when that absolute path exists, which is
  \<^verbatim>\<open>load_from\<close> itself when it is absolute already, and raises \<^verbatim>\<open>ValueError\<close>
  (the \<^verbatim>\<open>NotFoundError\<close> of the specification) when it does not exist; without a
  \<^verbatim>\<open>load_from\<close> it returns \<^verbatim>\<open>None\<close> and touches nothing.
\<close>

theorem resolve_checkpoint_direct:
  "(load_from run = None \<longrightarrow> resolve_checkpoint w run tr = (Inr None, tr))
   \<and> (load_from run = Some lf \<and> endswith lf ''.ckpt'' \<longrightarrow>
        resolve_checkpoint w run tr =
          (if path_exists w (to_absolute_path w lf)
           then Inr (Some (to_absolute_path w lf))
           else Inl (ValueError (''File '' @ to_absolute_path w lf @ '' does not exist!'')),
           tr @ [PathExists (to_absolute_path w lf)]))
   \<and> (load_from run = Some lf \<and> endswith lf ''.ckpt'' \<and> to_absolute_path w lf = lf
        \<and> path_exists w lf \<longrightarrow>
        fst (resolve_checkpoint w run tr) = Inr (Some lf))"
  by (auto simp: resolve_checkpoint_def os_path_exists_def emit_def bindM_def raise_def ret_def
      Let_def)

theorem resolve_checkpoint_direct_witness:
  "resolve_checkpoint ex_world (ex_run\<lparr>load_from := Some ''/work/best.ckpt''\<rparr>) []
     = (Inr (Some ''/work/best.ckpt''), [PathExists ''/work/best.ckpt''])
   \<and> resolve_checkpoint ex_world (ex_run\<lparr>load_from := Some ''/work/none.ckpt''\<rparr>) []
     = (Inl (ValueError ''File /work/none.ckpt does not exist!''), [PathExists ''/work/none.ckpt''])
   \<and> resolve_checkpoint ex_world ex_run [] = (Inr None, [])"
  using resolve_checkpoint_direct
          [of "ex_run\<lparr>load_from := Some ''/work/best.ckpt''\<rparr>" ex_world "[]" "''/work/best.ckpt''"]
        resolve_checkpoint_direct
          [of "ex_run\<lparr>load_from := Some ''/work/none.ckpt''\<rparr>" ex_world "[]" "''/work/none.ckpt''"]
        resolve_checkpoint_direct [of ex_run ex_world "[]" "''''"]
  by (simp add: ex_world_def ex_run_def ex_abspath_def endswith_def startswith_def)

text \<open>
  C5 as stated fails on a relative path: the file exists, and what is returned is the
  absolute path, not the path that was given.
\<close>

theorem resolve_checkpoint_direct_counterexample:
  "endswith ''best.ckpt'' ''.ckpt''
   \<and> path_exists ex_world (to_absolute_path ex_world ''best.ckpt'')
   \<and> fst (resolve_checkpoint ex_world (ex_run\<lparr>load_from := Some ''best.ckpt''\<rparr>) [])
       = Inr (Some ''/work/best.ckpt'')
   \<and> fst (resolve_checkpoint ex_world (ex_run\<lparr>load_from := Some ''best.ckpt''\<rparr>) [])
       \<noteq> Inr (Some ''best.ckpt'')"
  by (simp add: resolve_checkpoint_def os_path_exists_def emit_def bindM_def raise_def ret_def
      Let_def ex_world_def ex_run_def ex_abspath_def endswith_def startswith_def)

subsection \<open>What a launch that returns has recorded\<close>

text \<open>
  Each factory, when it returns, has appended a fixed pattern of calls to the record; a
  launch that returns has appended these patterns one after the other.
\<close>

lemma map_filter_append:
  "List.map_filter f (xs @ ys) = List.map_filter f xs @ List.map_filter f ys"
  by (simp add: List.map_filter_def)

lemma make_model_trace:
  "make_model mp ds tr = (Inr m, tr') \<Longrightarrow> \<exists>kw. tr' = tr @ [Invoke Model [] kw]"
  by (auto simp: make_model_def bindM_Inr invoke_Inr getattr_conf_def py_square_def raise_def
      ret_def split: option.splits pyval.splits)

lemma make_datasets_trace:
  "make_datasets tm sd dp tr = (Inr (t, v, te), tr') \<Longrightarrow>
     (\<exists>k1 k2. tr' = tr @ (if tm then [Invoke Dataset [] k1, Invoke Dataset [] k2]
                           else [Invoke Dataset [] k1]))"
  by (auto simp: make_datasets_def bindM_Inr invoke_Inr ret_def split: if_splits)

lemma make_optimizer_trace:
  "make_optimizer w op m tr = (Inr x, tr') \<Longrightarrow> \<exists>a. tr' = tr @ [Invoke Optimizer a []]"
  by (auto simp: make_optimizer_def invoke_Inr)

lemma make_scheduler_trace:
  "make_scheduler sp opt ep tr = (Inr x, tr') \<Longrightarrow> tr' = tr @ [Invoke Scheduler [opt] []]"
  by (auto simp: make_scheduler_def bindM_Inr invoke_Inr ret_def split: if_splits)

lemma parallelize_model_trace:
  "parallelize_model w m tr = (Inr x, tr') \<Longrightarrow>
     tr' = tr @ (if 1 < device_count w
                 then [DeviceCount, DeviceCount, DeviceCount, DataParallel m]
                 else [DeviceCount, DeviceCount])"
  by (auto simp: parallelize_model_def cuda_device_count_def TransparentDataParallel_def
      emit_def bindM_def ret_def split: if_splits)

lemma to_cuda_Inr:
  "to_cuda w x tr = (Inr y, tr') \<longleftrightarrow> y = moved_to_device w x \<and> tr' = tr @ [ToCuda x]"
  by (auto simp: to_cuda_def emit_def)

lemma make_training_loss_trace:
  "make_training_loss tm lp tr = (Inr l, tr') \<Longrightarrow>
     (if tm then tr' = tr @ [Invoke TrainingLoss [] []] \<and> l \<noteq> PNone
      else tr' = tr \<and> l = PNone)"
  by (auto simp: make_training_loss_def invoke_Inr ret_def split: if_splits)

lemma make_dataloaders_trace:
  "make_dataloaders w dp t v te tm sd tr = (Inr (a, b, c), tr') \<Longrightarrow>
     (\<exists>x1 k1 x2 k2. tr' = tr @ (if REPRODUCIBLE w then [ManualSeed sd] else [])
                    @ (if tm then [Invoke DataLoader x1 k1, Invoke DataLoader x2 k2]
                       else [Invoke DataLoader x1 k1]))"
  by (auto simp: make_dataloaders_def seeded_generator_def raise_def bindM_Inr invoke_Inr
      emit_Inr ret_def split: if_splits)

lemma init_wandb_trace:
  "init_wandb w n m tr = (Inr u, tr') \<Longrightarrow>
     tr' = tr @ (if USE_WANDB w then [WandbInit (PROJECT_NAME w) n, WandbWatch m ''gradients'' False]
                 else [])"
  by (auto simp: init_wandb_def emit_def bindM_def ret_def split: if_splits)

lemma call_kwargs_Inr: "call_kwargs ds = Inr kw \<Longrightarrow> kw = concat ds"
  by (auto simp: call_kwargs_def Let_def split: if_splits)

lemma bootstrap_run_driver_trace:
  assumes "bootstrap_run_driver w run trainer tester mi oi si li trl vl tsl ck tr = (Inr u, tr')"
  shows "\<exists>drv.
     tr' = tr @
       (if training_mode run
        then [Invoke Trainer []
                ([(''train_loader'', trl), (''val_loader'', vl), (''opt'', oi), (''scheduler'', si),
                  (''run_name'', PStr (run_name w)), (''model'', mi), (''model_ckpt_path'', ck),
                  (''training_loss'', li)] @ asdict run),
              EntryPoint drv ''train''
                [(''epochs'', PInt (epochs run)),
                 (''val_every'', PInt (val_every run)),
                 (''visualize_every'', PInt (viz_every run)),
                 (''visualize_train_every'', PInt (viz_train_every run)),
                 (''visualize_n_samples'', PInt (viz_num_samples run))]]
        else [Invoke Tester []
                [(''data_loader'', tsl), (''run_name'', PStr (run_name w)), (''model'', mi),
                 (''model_ckpt_path'', ck), (''training_loss'', li)],
              EntryPoint drv ''test''
                ((''visualize_every'', PInt (viz_every run)) # asdict run)])"
  using assms
  by (auto simp: bootstrap_run_driver_def Let_def raise_def bindM_Inr invoke_Inr lift_Inr
      entry_point_def emit_Inr ret_def dest!: call_kwargs_Inr split: if_splits)


lemma bootstrap_launch_trace:
  assumes "bootstrap_launch_experiment w run dl op sc trn tst ds md ls tr = (Inr u, tr')"
  shows "\<exists>pre kw drv.
     tr' = tr @ pre @
        [LoadModelCkpt (load_from run) (training_mode run),
         Invoke (if training_mode run then Trainer else Tester) [] kw,
         EntryPoint drv (if training_mode run then ''train'' else ''test'')
           (if training_mode run
            then [(''epochs'', PInt (epochs run)),
                  (''val_every'', PInt (val_every run)),
                  (''visualize_every'', PInt (viz_every run)),
                  (''visualize_train_every'', PInt (viz_train_every run)),
                  (''visualize_n_samples'', PInt (viz_num_samples run))]
            else (''visualize_every'', PInt (viz_every run)) # asdict run)]
     \<and> (\<exists>km kd1 kd2 ao bs mw x lo xl1 kl1 xl2 kl2 mc.
          pre =
            [Invoke Model [] km]
            @ (if training_mode run then [Invoke Dataset [] kd1, Invoke Dataset [] kd2]
               else [Invoke Dataset [] kd1])
            @ [Invoke Optimizer ao [], Invoke Scheduler bs []]
            @ (if 1 < device_count w
               then [DeviceCount, DeviceCount, DeviceCount, DataParallel mw]
               else [DeviceCount, DeviceCount])
            @ [ToCuda x]
            @ (if training_mode run then [Invoke TrainingLoss [] []] else [])
            @ [ToCuda lo]
            @ (if REPRODUCIBLE w then [ManualSeed (seed run)] else [])
            @ (if training_mode run
               then [Invoke DataLoader xl1 kl1, Invoke DataLoader xl2 kl2]
               else [Invoke DataLoader xl1 kl1])
            @ (if USE_WANDB w
               then [WandbInit (PROJECT_NAME w) (run_name w), WandbWatch mc ''gradients'' False]
               else []))
     \<and> (if training_mode run then set (asdict run) \<subseteq> set kw
         else map_of kw ''training_loss'' = Some (moved_to_device w PNone)
              \<and> (\<forall>a k. Invoke TrainingLoss a k \<notin> set pre))"
proof -
  from assms obtain mi tr1 trd vd ted tr2 oi tr3 si tr4 wr tr5 mc tr6 lo tr7 li tr8
      trl vl tsl tr9 tr10 ck tr11
    where 1: "make_model md ds tr = (Inr mi, tr1)"
      and 2: "make_datasets (training_mode run) (seed run) ds tr1 = (Inr (trd, vd, ted), tr2)"
      and 3: "make_optimizer w op mi tr2 = (Inr oi, tr3)"
      and 4: "make_scheduler sc oi (epochs run) tr3 = (Inr si, tr4)"
      and 5: "parallelize_model w mi tr4 = (Inr wr, tr5)"
      and 6: "to_cuda w wr tr5 = (Inr mc, tr6)"
      and 7: "make_training_loss (training_mode run) ls tr6 = (Inr lo, tr7)"
      and 8: "to_cuda w lo tr7 = (Inr li, tr8)"
      and 9: "make_dataloaders w dl trd vd ted (training_mode run) (seed run) tr8
                = (Inr (trl, vl, tsl), tr9)"
      and 10: "init_wandb w (run_name w) mc tr9 = (Inr (), tr10)"
      and 11: "emit (LoadModelCkpt (load_from run) (training_mode run))
                 (load_model_ckpt w (load_from run) (training_mode run)) tr10 = (Inr ck, tr11)"
      and 12: "bootstrap_run_driver w run trn tst mc oi si li trl vl tsl (opt_str ck) tr11
                 = (Inr u, tr')"
    unfolding bootstrap_launch_experiment_def
    by (auto simp: bindM_Inr)
  note t1 = make_model_trace [OF 1]
  note t2 = make_datasets_trace [OF 2]
  note t3 = make_optimizer_trace [OF 3]
  note t4 = make_scheduler_trace [OF 4]
  note t5 = parallelize_model_trace [OF 5]
  note t6 = 6 [unfolded to_cuda_Inr]
  note t7 = make_training_loss_trace [OF 7]
  note t8 = 8 [unfolded to_cuda_Inr]
  note t9 = make_dataloaders_trace [OF 9]
  note t10 = init_wandb_trace [OF 10]
  note t11 = 11 [unfolded emit_Inr]
  note t12 = bootstrap_run_driver_trace [OF 12]
  show ?thesis
  proof (cases "training_mode run")
    case True
    from t1 t2 t3 t4 t5 t6 t7 t8 t9 t10 t11 t12 True show ?thesis
      by (auto simp: map_filter_append List.map_filter_def)
  next
    case False
    from t1 t2 t3 t4 t5 t6 t7 t8 t9 t10 t11 t12 False show ?thesis
      by (auto simp: map_filter_append List.map_filter_def)
  qed
qed

lemma le_instantiate_trace:
  "le_instantiate w run op sc ds md tr = (Inr (mi, trd, vd, ted, oi, si), tr') \<Longrightarrow>
     (\<exists>km k1 k2 a b. tr' = tr @ [Invoke Model [] km]
         @ (if training_mode run then [Invoke Dataset [] k1, Invoke Dataset [] k2]
            else [Invoke Dataset [] k1])
         @ [Invoke Optimizer a [], Invoke Scheduler b []])"
  by (auto simp: le_instantiate_def bindM_Inr invoke_Inr getattr_conf_def py_square_def
      raise_def ret_def split: option.splits pyval.splits if_splits)

lemma le_multi_gpu_trace:
  "le_multi_gpu w m tr = (Inr x, tr') \<Longrightarrow>
     tr' = tr @ (if 1 < device_count w
                 then [DeviceCount, DeviceCount, DeviceCount, DataParallel m]
                 else [DeviceCount, DeviceCount])"
  by (auto simp: le_multi_gpu_def cuda_device_count_def TransparentDataParallel_def
      emit_def bindM_def ret_def split: if_splits)

lemma le_loss_cuda_trace:
  "le_loss_cuda w run ls m tr = (Inr (mc, li), tr') \<Longrightarrow>
     (\<exists>lo. tr' = tr @ (if training_mode run then [Invoke TrainingLoss [] []] else [])
                  @ [ToCuda m, ToCuda lo]
          \<and> li = moved_to_device w lo
          \<and> (\<not> training_mode run \<longrightarrow> lo = PNone))"
  by (auto simp: le_loss_cuda_def bindM_Inr invoke_Inr to_cuda_Inr ret_def split: if_splits)

lemma le_wandb_trace:
  "le_wandb w m tr = (Inr u, tr') \<Longrightarrow>
     tr' = tr @ (if USE_WANDB w
                 then [WandbInit (PROJECT_NAME w) (run_name w), WandbWatch m ''all'' True]
                 else [])"
  by (auto simp: le_wandb_def emit_def bindM_def ret_def split: if_splits)

lemma le_loaders_trace:
  "le_loaders w run dp t v te tr = (Inr (a, b, c), tr') \<Longrightarrow>
     (\<exists>x1 k1 x2 k2. tr' = tr @ (if REPRODUCIBLE w then [ManualSeed (seed run)] else [])
                    @ (if training_mode run
                       then [Invoke DataLoader x1 k1, Invoke DataLoader x2 k2]
                       else [Invoke DataLoader x1 k1]))"
  by (auto simp: le_loaders_def seeded_generator_def raise_def bindM_Inr invoke_Inr
      emit_Inr ret_def split: if_splits)

lemma resolve_checkpoint_trace:
  "resolve_checkpoint w run tr = (Inr ck, tr') \<Longrightarrow>
     tr' = tr @ (case load_from run of
                   None \<Rightarrow> []
                 | Some lf \<Rightarrow>
                     if endswith lf ''.ckpt'' then [PathExists (to_absolute_path w lf)]
                     else [ListDir (to_absolute_path w (''runs/'' @ lf @ ''/''))])"
  by (auto simp: resolve_checkpoint_def os_path_exists_def os_listdir_def raise_def bindM_Inr
      emit_Inr ret_def Let_def split: option.splits if_splits)

lemma le_run_driver_trace:
  assumes "le_run_driver w run trainer tester mi oi si li trl vl tsl ck tr = (Inr u, tr')"
  shows "\<exists>drv.
     tr' = tr @
       (if training_mode run
        then [Invoke Trainer []
                ([(''run_name'', PStr (run_name w)), (''model'', mi), (''opt'', oi),
                  (''scheduler'', si), (''train_loader'', trl), (''val_loader'', vl),
                  (''training_loss'', li)] @ asdict run),
              EntryPoint drv ''train''
                [(''epochs'', PInt (epochs run)),
                 (''val_every'', PInt (val_every run)),
                 (''visualize_every'', PInt (viz_every run)),
                 (''visualize_train_every'', PInt (viz_train_every run)),
                 (''visualize_n_samples'', PInt (viz_num_samples run)),
                 (''model_ckpt_path'', ck)]]
        else [Invoke Tester []
                [(''run_name'', PStr (run_name w)), (''model'', mi), (''data_loader'', tsl),
                 (''model_ckpt_path'', ck), (''training_loss'', li)],
              EntryPoint drv ''test''
                ((''visualize_every'', PInt (viz_every run)) # asdict run)])"
  using assms
  by (auto simp: le_run_driver_def Let_def raise_def bindM_Inr invoke_Inr lift_Inr
      entry_point_def emit_Inr ret_def dest!: call_kwargs_Inr split: if_splits)

lemma launch_trace:
  assumes "launch_experiment w run dl op sc trn tst ds md ls tr = (Inr u, tr')"
  shows "\<exists>pre kw drv ck.
     tr' = tr @ pre
        @ (case load_from run of
             None \<Rightarrow> []
           | Some lf \<Rightarrow>
               if endswith lf ''.ckpt'' then [PathExists (to_absolute_path w lf)]
               else [ListDir (to_absolute_path w (''runs/'' @ lf @ ''/''))])
        @ [Invoke (if training_mode run then Trainer else Tester) [] kw,
           EntryPoint drv (if training_mode run then ''train'' else ''test'')
             (if training_mode run
              then [(''epochs'', PInt (epochs run)),
                    (''val_every'', PInt (val_every run)),
                    (''visualize_every'', PInt (viz_every run)),
                    (''visualize_train_every'', PInt (viz_train_every run)),
                    (''visualize_n_samples'', PInt (viz_num_samples run)),
                    (''model_ckpt_path'', ck)]
              else (''visualize_every'', PInt (viz_every run)) # asdict run)]
     \<and> (\<exists>km kd1 kd2 ao bs mw x lo xl1 kl1 xl2 kl2 mc.
          pre =
            [Invoke Model [] km]
            @ (if training_mode run then [Invoke Dataset [] kd1, Invoke Dataset [] kd2]
               else [Invoke Dataset [] kd1])
            @ [Invoke Optimizer ao [], Invoke Scheduler bs []]
            @ (if 1 < device_count w
               then [DeviceCount, DeviceCount, DeviceCount, DataParallel mw]
               else [DeviceCount, DeviceCount])
            @ (if training_mode run then [Invoke TrainingLoss [] []] else [])
            @ [ToCuda x, ToCuda lo]
            @ (if USE_WANDB w
               then [WandbInit (PROJECT_NAME w) (run_name w), WandbWatch mc ''all'' True]
               else [])
            @ (if REPRODUCIBLE w then [ManualSeed (seed run)] else [])
            @ (if training_mode run
               then [Invoke DataLoader xl1 kl1, Invoke DataLoader xl2 kl2]
               else [Invoke DataLoader xl1 kl1]))
     \<and> (if training_mode run then set (asdict run) \<subseteq> set kw
         else map_of kw ''training_loss'' = Some (moved_to_device w PNone)
              \<and> (\<forall>a k. Invoke TrainingLoss a k \<notin> set pre))"
proof -
  from assms obtain mi trd vd ted oi si tr1 wr tr2 mc li tr3 tr4 trl vl tsl tr5 ck tr6
    where 1: "le_instantiate w run op sc ds md tr = (Inr (mi, trd, vd, ted, oi, si), tr1)"
      and 2: "le_multi_gpu w mi tr1 = (Inr wr, tr2)"
      and 3: "le_loss_cuda w run ls wr tr2 = (Inr (mc, li), tr3)"
      and 4: "le_wandb w mc tr3 = (Inr (), tr4)"
      and 5: "le_loaders w run dl trd vd ted tr4 = (Inr (trl, vl, tsl), tr5)"
      and 6: "resolve_checkpoint w run tr5 = (Inr ck, tr6)"
      and 7: "le_run_driver w run trn tst mc oi si li trl vl tsl (opt_str ck) tr6 = (Inr u, tr')"
    unfolding launch_experiment_def
    by (auto simp: bindM_Inr)
  note t1 = le_instantiate_trace [OF 1]
  note t2 = le_multi_gpu_trace [OF 2]
  note t3 = le_loss_cuda_trace [OF 3]
  note t4 = le_wandb_trace [OF 4]
  note t5 = le_loaders_trace [OF 5]
  note t6 = resolve_checkpoint_trace [OF 6]
  note t7 = le_run_driver_trace [OF 7]
  show ?thesis
  proof (cases "training_mode run")
    case True
    from t1 t2 t3 t4 t5 t6 t7 True show ?thesis
      by (auto simp: map_filter_append List.map_filter_def)
  next
    case False
    from t1 t2 t3 t4 t5 t6 t7 False show ?thesis
      by (auto simp: map_filter_append List.map_filter_def)
  qed
qed

lemma test_main_trace:
  assumes "test_main w cfg tr = (Inr u, tr')"
  shows "\<exists>mid. tr' = tr @ (if REPRODUCIBLE w then [SeedEverything (seed (cfg_run cfg))] else [])
                    @ mid
     \<and> bootstrap_launch_experiment w ((cfg_run cfg)\<lparr>training_mode := False\<rparr>)
          (cfg_data_loader cfg) (cfg_optimizer cfg) (cfg_scheduler cfg) (cfg_trainer cfg)
          (cfg_tester cfg) (cfg_dataset cfg) (cfg_model cfg) (cfg_training_loss cfg)
          (tr @ (if REPRODUCIBLE w then [SeedEverything (seed (cfg_run cfg))] else []))
        = (Inr u, tr @ (if REPRODUCIBLE w then [SeedEverything (seed (cfg_run cfg))] else [])
                    @ mid)"
proof -
  let ?tr0 = "tr @ (if REPRODUCIBLE w then [SeedEverything (seed (cfg_run cfg))] else [])"
  have b: "bootstrap_launch_experiment w ((cfg_run cfg)\<lparr>training_mode := False\<rparr>)
          (cfg_data_loader cfg) (cfg_optimizer cfg) (cfg_scheduler cfg) (cfg_trainer cfg)
          (cfg_tester cfg) (cfg_dataset cfg) (cfg_model cfg) (cfg_training_loss cfg) ?tr0
        = (Inr u, tr')"
    using assms
    by (auto simp: test_main_def set_test_mode_def seed_everything_def Let_def
        split: if_splits)
  from bootstrap_launch_trace [OF b] obtain mid where "tr' = ?tr0 @ mid" by auto
  with b show ?thesis by auto
qed

lemma ex_test_main:
  "test_main ex_world ex_config [] =
  (Inr (),
  [SeedEverything 42, Invoke Model [] [(''encoder_input_dim'', PInt 1024)],
   Invoke Dataset []
    [(''split'', PStr ''test''), (''augment'', PBool False),
     (''seed'', PInt 42)],
   Invoke Optimizer
    [PObj
      (Obj [''generator'']
        [(''of'',
          PObj (Obj [''MLP''] [(''encoder_input_dim'', PInt 1024)]))])]
    [],
   Invoke Scheduler [PObj (Obj [''Adam''] [(''lr'', PInt 1)])] [],
   DeviceCount, DeviceCount,
   ToCuda (PObj (Obj [''MLP''] [(''encoder_input_dim'', PInt 1024)])),
   ToCuda PNone, ManualSeed 42,
   Invoke DataLoader
    [PObj
      (Obj [''ImageDataset'']
        [(''img_dim'', PInt 32), (''split'', PStr ''test''),
         (''augment'', PBool False), (''seed'', PInt 42)])]
    [(''generator'',
      PObj (Obj [''Generator''] [(''initial_seed'', PInt 42)])),
     (''shuffle'', PBool False), (''drop_last'', PBool False)],
   LoadModelCkpt None False,
   Invoke Tester []
    [(''data_loader'',
      PObj
       (Obj [''DataLoader'']
         [(''batch_size'', PInt 32),
          (''generator'',
           PObj (Obj [''Generator''] [(''initial_seed'', PInt 42)])),
          (''shuffle'', PBool False), (''drop_last'', PBool False)])),
     (''run_name'', PStr ''run0''),
     (''model'', PObj (Obj [''MLP''] [(''encoder_input_dim'', PInt 1024)])),
     (''model_ckpt_path'', PNone), (''training_loss'', PNone)],
   EntryPoint
    (PObj
      (Obj [''BaseTester'']
        [(''data_loader'',
          PObj
           (Obj [''DataLoader'']
             [(''batch_size'', PInt 32),
              (''generator'',
               PObj (Obj [''Generator''] [(''initial_seed'', PInt 42)])),
              (''shuffle'', PBool False), (''drop_last'', PBool False)])),
         (''run_name'', PStr ''run0''),
         (''model'',
          PObj (Obj [''MLP''] [(''encoder_input_dim'', PInt 1024)])),
         (''model_ckpt_path'', PNone), (''training_loss'', PNone)]))
    ''test''
    [(''visualize_every'', PInt 10), (''training_mode'', PBool False),
     (''seed'', PInt 42), (''epochs'', PInt 10), (''val_every'', PInt 1),
     (''viz_every'', PInt 10), (''viz_train_every'', PInt 0),
     (''viz_num_samples'', PInt 5), (''load_from'', PNone)]])"
  by code_simp

subsection \<open>The order of the stages\<close>

text \<open>
  C1, as amended. A launch that runs to completion goes through the stages in this order:
  the seeder (the pre-call of \<^verbatim>\<open>test.py\<close>, when \<^verbatim>\<open>REPRODUCIBLE\<close> is set), the
  model assembler, the dataset assembler, the optimization assembler (optimizer, then
  scheduler), the device placement, in training mode the construction of the loss, the
  loader assembler, the checkpoint resolver, the run driver assembler, the invocation of
  the driver. So the model is assembled before the datasets, and the optimizer and the
  scheduler are constructed before the device placement. The first conjunct is the launch of
  \<^verbatim>\<open>test.py\<close>, which is always in testing mode; the second is the bootstrap launcher in
  either mode; the third is the launcher at the top of the repository, whose checkpoint
  stage makes no call when there is no \<^verbatim>\<open>load_from\<close>.
\<close>

theorem launch_stage_order:
  "(test_main w cfg [] = (Inr u1, t1) \<longrightarrow>
      stages t1 =
        (if REPRODUCIBLE w then [Seeder] else [])
        @ [ModelAssembler, DatasetAssembler, OptimizationAssembler, DevicePlacement,
           LoaderAssembler, CheckpointResolver, RunDriverAssembler, DriverInvocation])
   \<and> (bootstrap_launch_experiment w run dl op sc trn tst ds md ls [] = (Inr u2, t2) \<longrightarrow>
      stages t2 =
        [ModelAssembler, DatasetAssembler, OptimizationAssembler, DevicePlacement]
        @ (if training_mode run then [LossConstruction] else [])
        @ [LoaderAssembler, CheckpointResolver, RunDriverAssembler, DriverInvocation])
   \<and> (launch_experiment w run dl op sc trn tst ds md ls [] = (Inr u3, t3) \<longrightarrow>
      stages t3 =
        [ModelAssembler, DatasetAssembler, OptimizationAssembler, DevicePlacement]
        @ (if training_mode run then [LossConstruction] else [])
        @ [LoaderAssembler]
        @ (if load_from run = None then [] else [CheckpointResolver])
        @ [RunDriverAssembler, DriverInvocation])"
proof (intro conjI impI)
  assume a: "test_main w cfg [] = (Inr u1, t1)"
  from test_main_trace [OF a] have
    b: "bootstrap_launch_experiment w ((cfg_run cfg)\<lparr>training_mode := False\<rparr>)
          (cfg_data_loader cfg) (cfg_optimizer cfg) (cfg_scheduler cfg) (cfg_trainer cfg)
          (cfg_tester cfg) (cfg_dataset cfg) (cfg_model cfg) (cfg_training_loss cfg)
          ([] @ (if REPRODUCIBLE w then [SeedEverything (seed (cfg_run cfg))] else []))
        = (Inr u1, t1)"
    by auto
  from bootstrap_launch_trace [OF b]
  show "stages t1 =
        (if REPRODUCIBLE w then [Seeder] else [])
        @ [ModelAssembler, DatasetAssembler, OptimizationAssembler, DevicePlacement,
           LoaderAssembler, CheckpointResolver, RunDriverAssembler, DriverInvocation]"
    by (auto simp: stages_def map_filter_append List.map_filter_def)
next
  assume a: "bootstrap_launch_experiment w run dl op sc trn tst ds md ls [] = (Inr u2, t2)"
  from bootstrap_launch_trace [OF a]
  show "stages t2 =
        [ModelAssembler, DatasetAssembler, OptimizationAssembler, DevicePlacement]
        @ (if training_mode run then [LossConstruction] else [])
        @ [LoaderAssembler, CheckpointResolver, RunDriverAssembler, DriverInvocation]"
    by (auto simp: stages_def map_filter_append List.map_filter_def)
next
  assume a: "launch_experiment w run dl op sc trn tst ds md ls [] = (Inr u3, t3)"
  from launch_trace [OF a]
  show "stages t3 =
        [ModelAssembler, DatasetAssembler, OptimizationAssembler, DevicePlacement]
        @ (if training_mode run then [LossConstruction] else [])
        @ [LoaderAssembler]
        @ (if load_from run = None then [] else [CheckpointResolver])
        @ [RunDriverAssembler, DriverInvocation]"
    by (auto simp: stages_def map_filter_append List.map_filter_def split: option.splits)
qed


theorem launch_stage_order_witness:
  "test_main ex_world ex_config [] = (Inr (), snd (test_main ex_world ex_config []))
   \<and> stages (snd (test_main ex_world ex_config [])) =
       [Seeder, ModelAssembler, DatasetAssembler, OptimizationAssembler, DevicePlacement,
        LoaderAssembler, CheckpointResolver, RunDriverAssembler, DriverInvocation]
   \<and> ex_launch bootstrap_launch_experiment ex_run
       = (Inr (), snd (ex_launch bootstrap_launch_experiment ex_run))
   \<and> stages (snd (ex_launch bootstrap_launch_experiment ex_run)) =
       [ModelAssembler, DatasetAssembler, OptimizationAssembler, DevicePlacement,
        LossConstruction, LoaderAssembler, CheckpointResolver, RunDriverAssembler,
        DriverInvocation]
   \<and> ex_launch launch_experiment ex_run
       = (Inr (), snd (ex_launch launch_experiment ex_run))
   \<and> stages (snd (ex_launch launch_experiment ex_run)) =
       [ModelAssembler, DatasetAssembler, OptimizationAssembler, DevicePlacement,
        LossConstruction, LoaderAssembler, RunDriverAssembler, DriverInvocation]"
proof -
  have 1: "test_main ex_world ex_config [] = (Inr (), snd (test_main ex_world ex_config []))"
    by code_simp
  have 2: "ex_launch bootstrap_launch_experiment ex_run
             = (Inr (), snd (ex_launch bootstrap_launch_experiment ex_run))"
    by code_simp
  have 3: "ex_launch launch_experiment ex_run
             = (Inr (), snd (ex_launch launch_experiment ex_run))"
    by code_simp
  have r: "REPRODUCIBLE ex_world" "training_mode ex_run" "load_from ex_run = None"
    by (simp_all add: ex_world_def ex_run_def)
  from launch_stage_order
         [of ex_world ex_config "()" "snd (test_main ex_world ex_config [])" ex_run
             "cfg_data_loader ex_config" "cfg_optimizer ex_config" "cfg_scheduler ex_config"
             "cfg_trainer ex_config" "cfg_tester ex_config" "cfg_dataset ex_config"
             "cfg_model ex_config" "cfg_training_loss ex_config" "()"
             "snd (ex_launch bootstrap_launch_experiment ex_run)" "()"
             "snd (ex_launch launch_experiment ex_run)"]
       1 2 [unfolded ex_launch_def] 3 [unfolded ex_launch_def] r
  show ?thesis
    by (simp add: ex_launch_def)
qed

text \<open>
  C1 as stated fails on the launch of \<^verbatim>\<open>test.py\<close> on the example configuration: it
  runs to completion, with the model assembled before the dataset and the device placement
  after the optimizer and the scheduler.
\<close>

theorem launch_order_counterexample:
  "fst (test_main ex_world ex_config []) = Inr ()
   \<and> stages (snd (test_main ex_world ex_config [])) =
       [Seeder, ModelAssembler, DatasetAssembler, OptimizationAssembler, DevicePlacement,
        LoaderAssembler, CheckpointResolver, RunDriverAssembler, DriverInvocation]
   \<and> stages (snd (test_main ex_world ex_config [])) \<noteq>
       [Seeder, DatasetAssembler, ModelAssembler, DevicePlacement, OptimizationAssembler,
        LoaderAssembler, CheckpointResolver, RunDriverAssembler, DriverInvocation]"
  by (simp add: ex_test_main stages_def List.map_filter_def)

subsection \<open>What the run entry point receives\<close>





subsection \<open>The training loss\<close>



end
